theory Spec2Isabelle
  imports Main "HOL-Library.Sublist" "HOL-Library.Word"
begin

section \<open>Strings and bytes\<close>

text \<open>
  A Python \<open>str\<close> is a sequence of Unicode code points, so it is modelled as a list of
  natural numbers (one per code point), not as a list of 8-bit characters: the template
  holds U+2014 and U+2022, and \<open>str.strip\<close> looks at code points. \<open>lit\<close> turns an ASCII
  literal into that representation.
\<close>

type_synonym pystr = "nat list"

type_synonym byte = "8 word"

definition lit :: "string \<Rightarrow> pystr" where
  "lit s = map of_char s"

text \<open>The two non-ASCII characters of the template: U+2014 (em dash) and U+2022 (bullet).\<close>

definition emdash :: pystr where
  "emdash = [8212]"

definition bullet :: pystr where
  "bullet = [8226]"

text \<open>
  \<open>str.isspace\<close> on one code point: the characters Python's \<open>str.strip()\<close> removes
  when called without an argument.
\<close>

definition py_isspace :: "nat \<Rightarrow> bool" where
  "py_isspace c \<longleftrightarrow>
     (9 \<le> c \<and> c \<le> 13) \<or> (28 \<le> c \<and> c \<le> 32) \<or> c = 133 \<or> c = 160 \<or> c = 5760 \<or>
     (8192 \<le> c \<and> c \<le> 8202) \<or> c = 8232 \<or> c = 8233 \<or> c = 8239 \<or> c = 8287 \<or> c = 12288"

definition lstrip :: "pystr \<Rightarrow> pystr" where
  "lstrip s = dropWhile py_isspace s"

definition rstrip :: "pystr \<Rightarrow> pystr" where
  "rstrip s = rev (dropWhile py_isspace (rev s))"

definition strip :: "pystr \<Rightarrow> pystr" where
  "strip s = rstrip (lstrip s)"

text \<open>\<open>s.replace(old, new)\<close> for a one-character \<open>old\<close>.\<close>

definition replace_char :: "nat \<Rightarrow> pystr \<Rightarrow> pystr \<Rightarrow> pystr" where
  "replace_char old new s = concat (map (\<lambda>c. if c = old then new else [c]) s)"

text \<open>Truthiness of an \<open>Optional[str]\<close> and of an \<open>Optional[List[str]]\<close>.\<close>

fun truthy :: "'a list option \<Rightarrow> bool" where
  "truthy None = False"
| "truthy (Some xs) = (xs \<noteq> [])"

section \<open>The schema (schemas.py)\<close>

record CVExperience =
  company :: pystr
  role :: pystr
  duration :: pystr
  achievements :: "pystr list"

record CVEducation =
  degree :: pystr
  institution :: pystr
  year :: pystr

record CVProfile =
  full_name :: pystr
  email :: pystr
  phone :: pystr
  linkedin :: "pystr option"
  summary :: "pystr option"
  job_title_target :: pystr
  skills :: "pystr list"
  experience :: "CVExperience list"
  education :: "CVEducation list"
  certifications :: "pystr list option"
  projects :: "pystr list option"
  languages :: "pystr list option"
  interests :: "pystr list option"
  template :: "pystr option"

section \<open>Rendering (main.py, render_cv_html)\<close>

text \<open>
  \<open>skills_to_keywords\<close>: the comprehension keeps the entries that are truthy (non-empty)
  and strings, and strips each kept entry. Every entry of a validated profile is a
  \<open>str\<close>, so the \<open>isinstance\<close> test is always true here.
\<close>

definition skills_to_keywords :: "pystr list \<Rightarrow> pystr list" where
  "skills_to_keywords sk = map strip (filter (\<lambda>s. s \<noteq> []) sk)"

definition bullet_list :: "pystr list option \<Rightarrow> pystr" where
  "bullet_list items =
     (if \<not> truthy items then []
      else lit ''<ul>'' @
           concat (map (\<lambda>p. lit ''<li>'' @ p @ lit ''</li>'') (filter (\<lambda>p. p \<noteq> []) (the items))) @
           lit ''</ul>'')"

definition exp_item :: "CVExperience \<Rightarrow> pystr" where
  "exp_item e =
     lit ''\<newline>'' @
     lit ''        <div class='exp-item'>\<newline>'' @
     lit ''            <div class='exp-header'><strong>'' @ role e @ lit ''</strong> | '' @ company e @
       lit '' '' @ emdash @ lit '' <span class='muted'>'' @ duration e @ lit ''</span></div>\<newline>'' @
     lit ''            '' @ bullet_list (Some (achievements e)) @ lit ''\<newline>'' @
     lit ''        </div>\<newline>'' @
     lit ''        ''"

text \<open>The loop \<open>for e in data.experience: exp_html += ...\<close>, with the accumulator explicit.\<close>

primrec exp_loop :: "pystr \<Rightarrow> CVExperience list \<Rightarrow> pystr" where
  "exp_loop exp_html [] = exp_html"
| "exp_loop exp_html (e # es) = exp_loop (exp_html @ exp_item e) es"

definition edu_item :: "CVEducation \<Rightarrow> pystr" where
  "edu_item ed =
     lit ''<div class='edu-item'><strong>'' @ degree ed @ lit ''</strong>, '' @ institution ed @
       lit '' '' @ emdash @ lit '' <span class='muted'>'' @ year ed @ lit ''</span></div>''"

primrec edu_loop :: "pystr \<Rightarrow> CVEducation list \<Rightarrow> pystr" where
  "edu_loop edu_html [] = edu_html"
| "edu_loop edu_html (ed # eds) = edu_loop (edu_html @ edu_item ed) eds"

definition skill_tag :: "pystr \<Rightarrow> pystr" where
  "skill_tag s = lit ''<span class='tag'>'' @ s @ lit ''</span>''"

definition skills_html_of :: "pystr list \<Rightarrow> pystr" where
  "skills_html_of sk = concat (map skill_tag (skills_to_keywords sk))"

text \<open>The fallback of \<open>data.summary or f"Results-driven ..."\<close>.\<close>

definition fallback_summary :: "pystr \<Rightarrow> pystr" where
  "fallback_summary job =
     lit ''Results-driven '' @ job @
     lit '' with experience across key areas and strong focus on measurable impact.''"

definition summary_text :: "CVProfile \<Rightarrow> pystr" where
  "summary_text data =
     (if truthy (summary data) then the (summary data)
      else fallback_summary (job_title_target data))"

text \<open>The \<open><style>\<close> element of the template, where \<open>{{\<close> and \<open>}}\<close> stand for braces.\<close>

definition style_block :: pystr where
  "style_block =
     lit ''<style>\<newline>'' @
     lit ''  @page { size: A4; margin: 20mm; }\<newline>'' @
     lit ''  body { font-family: Arial, Helvetica, sans-serif; color: #111; font-size: 11pt; }\<newline>'' @
     lit ''  .header { border-bottom: 2px solid #111; padding-bottom: 6px; margin-bottom: 10px; }\<newline>'' @
     lit ''  .name { font-size: 20pt; font-weight: bold; }\<newline>'' @
     lit ''  .contact { font-size: 10pt; color: #333; }\<newline>'' @
     lit ''  h2 { font-size: 12.5pt; margin: 14px 0 6px; padding: 0; }\<newline>'' @
     lit ''  .section { margin-bottom: 8px; }\<newline>'' @
     lit ''  .muted { color: #555; }\<newline>'' @
     lit ''  ul { margin: 4px 0 0 18px; }\<newline>'' @
     lit ''  li { line-height: 1.35; margin: 2px 0; }\<newline>'' @
     lit ''  .tag { display: inline-block; border: 1px solid #999; padding: 2px 6px; border-radius: 3px; margin: 2px 6px 0 0; font-size: 9pt; }\<newline>'' @
     lit ''  .exp-item, .edu-item { margin-bottom: 6px; }\<newline>'' @
     lit ''</style>\<newline>''"

text \<open>
  One of the four trailing lines of the template:
  \<open>{f"<div class='section'><h2>T</h2>{body}</div>" if body else ''}\<close>.
\<close>

definition optional_section :: "pystr \<Rightarrow> pystr \<Rightarrow> pystr" where
  "optional_section title body =
     (if body \<noteq> [] then lit ''<div class='section'><h2>'' @ title @ lit ''</h2>'' @ body @ lit ''</div>''
      else [])"

definition render_cv_html :: "CVProfile \<Rightarrow> pystr" where
  "render_cv_html data =
    (let exp_html = exp_loop [] (experience data);
         edu_html = edu_loop [] (education data);
         certs_html = bullet_list (certifications data);
         projects_html = bullet_list (projects data);
         languages_html = bullet_list (languages data);
         interests_html = bullet_list (interests data);
         skills_html = skills_html_of (skills data)
     in
     lit ''\<newline>'' @
     lit ''<!DOCTYPE html>\<newline>'' @
     lit ''<html>\<newline>'' @
     lit ''<head>\<newline>'' @
     lit ''<meta charset='utf-8'>\<newline>'' @
     lit ''<title>'' @ full_name data @ lit '' '' @ emdash @ lit '' '' @ job_title_target data @
       lit '' CV</title>\<newline>'' @
     style_block @
     lit ''</head>\<newline>'' @
     lit ''<body>\<newline>'' @
     lit ''  <div class='header'>\<newline>'' @
     lit ''    <div class='name'>'' @ full_name data @ lit ''</div>\<newline>'' @
     lit ''    <div class='contact'>\<newline>'' @
     lit ''      '' @ phone data @ lit '' '' @ bullet @ lit '' '' @ email data @
       (if truthy (linkedin data) then lit '' '' @ bullet @ lit '' '' @ the (linkedin data) else []) @
       lit ''\<newline>'' @
     lit ''    </div>\<newline>'' @
     lit ''  </div>\<newline>'' @
     lit ''\<newline>'' @
     lit ''  <div class='section'>\<newline>'' @
     lit ''    <h2>Professional Summary</h2>\<newline>'' @
     lit ''    <p>'' @ summary_text data @ lit ''</p>\<newline>'' @
     lit ''  </div>\<newline>'' @
     lit ''\<newline>'' @
     lit ''  <div class='section'>\<newline>'' @
     lit ''    <h2>Core Skills</h2>\<newline>'' @
     lit ''    <div>'' @ skills_html @ lit ''</div>\<newline>'' @
     lit ''  </div>\<newline>'' @
     lit ''\<newline>'' @
     lit ''  <div class='section'>\<newline>'' @
     lit ''    <h2>Professional Experience</h2>\<newline>'' @
     lit ''    '' @ exp_html @ lit ''\<newline>'' @
     lit ''  </div>\<newline>'' @
     lit ''\<newline>'' @
     lit ''  <div class='section'>\<newline>'' @
     lit ''    <h2>Education</h2>\<newline>'' @
     lit ''    '' @ edu_html @ lit ''\<newline>'' @
     lit ''  </div>\<newline>'' @
     lit ''\<newline>'' @
     lit ''  '' @ optional_section (lit ''Certifications'') certs_html @ lit ''\<newline>'' @
     lit ''  '' @ optional_section (lit ''Projects / Achievements'') projects_html @ lit ''\<newline>'' @
     lit ''  '' @ optional_section (lit ''Languages'') languages_html @ lit ''\<newline>'' @
     lit ''  '' @ optional_section (lit ''Interests'') interests_html @ lit ''\<newline>'' @
     lit ''\<newline>'' @
     lit ''</body>\<newline>'' @
     lit ''</html>\<newline>'')"

subsection \<open>The sections of the template\<close>

text \<open>
  The pieces of the template, named after what they hold, each with the lines of
  \<open>render_cv_html\<close> it stands for. They are used to state where a section lies in the output.
\<close>

definition doc_head :: "CVProfile \<Rightarrow> pystr" where
  "doc_head data =
     lit ''\<newline>'' @
     lit ''<!DOCTYPE html>\<newline>'' @
     lit ''<html>\<newline>'' @
     lit ''<head>\<newline>'' @
     lit ''<meta charset='utf-8'>\<newline>'' @
     lit ''<title>'' @ full_name data @ lit '' '' @ emdash @ lit '' '' @ job_title_target data @
       lit '' CV</title>\<newline>'' @
     style_block @
     lit ''</head>\<newline>'' @
     lit ''<body>\<newline>''"

definition contact_line :: "CVProfile \<Rightarrow> pystr" where
  "contact_line data =
     phone data @ lit '' '' @ bullet @ lit '' '' @ email data @
     (if truthy (linkedin data) then lit '' '' @ bullet @ lit '' '' @ the (linkedin data) else [])"

definition header_section :: "CVProfile \<Rightarrow> pystr" where
  "header_section data =
     lit ''  <div class='header'>\<newline>'' @
     lit ''    <div class='name'>'' @ full_name data @ lit ''</div>\<newline>'' @
     lit ''    <div class='contact'>\<newline>'' @
     lit ''      '' @ contact_line data @ lit ''\<newline>'' @
     lit ''    </div>\<newline>'' @
     lit ''  </div>\<newline>''"

definition summary_section :: "CVProfile \<Rightarrow> pystr" where
  "summary_section data =
     lit ''  <div class='section'>\<newline>'' @
     lit ''    <h2>Professional Summary</h2>\<newline>'' @
     lit ''    <p>'' @ summary_text data @ lit ''</p>\<newline>'' @
     lit ''  </div>\<newline>''"

definition skills_section :: "CVProfile \<Rightarrow> pystr" where
  "skills_section data =
     lit ''  <div class='section'>\<newline>'' @
     lit ''    <h2>Core Skills</h2>\<newline>'' @
     lit ''    <div>'' @ skills_html_of (skills data) @ lit ''</div>\<newline>'' @
     lit ''  </div>\<newline>''"

definition experience_section :: "CVProfile \<Rightarrow> pystr" where
  "experience_section data =
     lit ''  <div class='section'>\<newline>'' @
     lit ''    <h2>Professional Experience</h2>\<newline>'' @
     lit ''    '' @ exp_loop [] (experience data) @ lit ''\<newline>'' @
     lit ''  </div>\<newline>''"

definition education_section :: "CVProfile \<Rightarrow> pystr" where
  "education_section data =
     lit ''  <div class='section'>\<newline>'' @
     lit ''    <h2>Education</h2>\<newline>'' @
     lit ''    '' @ edu_loop [] (education data) @ lit ''\<newline>'' @
     lit ''  </div>\<newline>''"

definition certifications_section :: "CVProfile \<Rightarrow> pystr" where
  "certifications_section data =
     optional_section (lit ''Certifications'') (bullet_list (certifications data))"

definition projects_section :: "CVProfile \<Rightarrow> pystr" where
  "projects_section data =
     optional_section (lit ''Projects / Achievements'') (bullet_list (projects data))"

definition languages_section :: "CVProfile \<Rightarrow> pystr" where
  "languages_section data =
     optional_section (lit ''Languages'') (bullet_list (languages data))"

definition interests_section :: "CVProfile \<Rightarrow> pystr" where
  "interests_section data =
     optional_section (lit ''Interests'') (bullet_list (interests data))"

definition doc_tail :: pystr where
  "doc_tail =
     lit ''\<newline>'' @
     lit ''</body>\<newline>'' @
     lit ''</html>\<newline>''"

section \<open>The endpoint (main.py, generate_cv)\<close>

text \<open>
  Python exceptions as values. \<open>except Exception\<close> catches the first kind only; the
  second stands for the exceptions that derive from \<open>BaseException\<close> directly.
\<close>

datatype pyexc = Exception pystr | BaseException pystr

text \<open>
  \<open>base64.b64encode(b).decode("utf-8")\<close>: three bytes give four characters of the
  standard alphabet, and the last group is padded with \<open>=\<close> (code point 61).
\<close>

definition b64_alphabet :: pystr where
  "b64_alphabet = lit ''ABCDEFGHIJKLMNOPQRSTUVWXYZabcdefghijklmnopqrstuvwxyz0123456789+/''"

definition b64_char :: "nat \<Rightarrow> nat" where
  "b64_char n = b64_alphabet ! (n mod 64)"

fun b64encode :: "byte list \<Rightarrow> pystr" where
  "b64encode [] = []"
| "b64encode [a] =
     [b64_char (unat a div 4), b64_char ((unat a mod 4) * 16), 61, 61]"
| "b64encode [a, b] =
     [b64_char (unat a div 4), b64_char ((unat a mod 4) * 16 + unat b div 16),
      b64_char ((unat b mod 16) * 4), 61]"
| "b64encode (a # b # c # rest) =
     [b64_char (unat a div 4), b64_char ((unat a mod 4) * 16 + unat b div 16),
      b64_char ((unat b mod 16) * 4 + unat c div 64), b64_char (unat c mod 64)] @
     b64encode rest"

text \<open>
  \<open>html_to_pdf_bytes\<close> hands the markup to \<open>pisa.CreatePDF\<close> and returns what the library
  wrote to the buffer. The library is a parameter: it returns the bytes or raises.
\<close>

definition html_to_pdf_bytes :: "(pystr \<Rightarrow> pyexc + byte list) \<Rightarrow> pystr \<Rightarrow> pyexc + byte list" where
  "html_to_pdf_bytes pisa html = pisa html"

record Response =
  id_resp :: "pystr option"
  filename :: pystr
  html :: pystr
  pdf_base64 :: pystr

definition make_filename :: "CVProfile \<Rightarrow> pystr" where
  "make_filename profile =
     replace_char 32 [] (full_name profile) @ lit ''_'' @
     replace_char 32 [] (job_title_target profile) @ lit ''_MakeMeHiredCV.pdf''"

text \<open>
  \<open>create_document\<close> belongs to the \<open>database\<close> module: it is a parameter that, in a
  datastore state, returns the identifier of the stored record or raises, and gives the
  new datastore state. The \<open>try\<close> block turns an \<open>Exception\<close> into the identifier \<open>None\<close>;
  any other exception leaves the handler.
\<close>

definition generate_cv ::
  "(pystr \<Rightarrow> CVProfile \<Rightarrow> 'db \<Rightarrow> (pyexc + pystr) \<times> 'db) \<Rightarrow> (pystr \<Rightarrow> pyexc + byte list) \<Rightarrow>
   CVProfile \<Rightarrow> 'db \<Rightarrow> (pyexc + Response) \<times> 'db" where
  "generate_cv create_document pisa profile db =
     (case create_document (lit ''cvprofile'') profile db of
        (Inl (BaseException m), db') \<Rightarrow> (Inl (BaseException m), db')
      | (r, db') \<Rightarrow>
          (let doc_id = (case r of Inr i \<Rightarrow> Some i | Inl _ \<Rightarrow> None);
               html = render_cv_html profile
           in case html_to_pdf_bytes pisa html of
                Inl e \<Rightarrow> (Inl e, db')
              | Inr pdf_bytes \<Rightarrow>
                  (Inr \<lparr> id_resp = doc_id, filename = make_filename profile, html = html,
                         pdf_base64 = b64encode pdf_bytes \<rparr>, db')))"

section \<open>Validation (schemas.py)\<close>

text \<open>
  Modelled from the spec: the validator of a submission. \<open>schemas.py\<close> holds the declarations
  of the three classes only; the code that checks a request body against them belongs to
  pydantic and FastAPI and is not in the repository. The specification says that validation
  produces a validated profile or fails with an error that enumerates every offending field
  (missing required field, wrong type, malformed email), and that no further work is done
  when it fails. The validators below follow that, reading the declarations field by field:
  a field declared with \<open>Field(...)\<close> is required, a field with a default or a
  \<open>default_factory\<close> takes it when the key is absent, \<open>Optional[T]\<close> accepts \<open>null\<close>, \<open>List[T]\<close>
  accepts an array whose elements are validated one by one, and a nested class accepts an
  object. The errors of all fields are collected, each with the location of the value it is
  about.

  Two checks of the libraries are parameters: \<open>str_of\<close>, which says which JSON values are
  accepted for a \<open>str\<close> field and with which string, and \<open>email_of\<close>, the syntax check behind
  \<open>EmailStr\<close>, which returns the normalised address or nothing.
\<close>

datatype json = JNull | JBool bool | JNum int | JStr pystr | JArr "json list"
  | JObj "(pystr \<times> json) list"

datatype loc_item = Key pystr | Idx nat

datatype err_kind = Missing | WrongType | BadEmail

type_synonym verror = "loc_item list \<times> err_kind"

type_synonym 'a validated = "verror list + 'a"

definition errs_of :: "'a validated \<Rightarrow> verror list" where
  "errs_of r = (case r of Inl es \<Rightarrow> es | Inr _ \<Rightarrow> [])"

definition at :: "loc_item \<Rightarrow> 'a validated \<Rightarrow> 'a validated" where
  "at l r = (case r of Inl es \<Rightarrow> Inl (map (\<lambda>(loc, k). (l # loc, k)) es) | Inr x \<Rightarrow> Inr x)"

text \<open>Two validated parts are combined; the errors of both are kept.\<close>

fun ap :: "('a \<Rightarrow> 'b) validated \<Rightarrow> 'a validated \<Rightarrow> 'b validated" where
  "ap (Inr f) (Inr x) = Inr (f x)"
| "ap (Inl es) (Inr x) = Inl es"
| "ap (Inr f) (Inl es) = Inl es"
| "ap (Inl es1) (Inl es2) = Inl (es1 @ es2)"












text \<open>
  The declarations of \<open>schemas.py\<close> as a table: for each field its name, whether it is required
  (\<open>Field(...)\<close>) and the check of its declared type. A field offends when it is required and
  missing, or present with a value that does not pass the check of its type. An error names
  a field when its location starts with the field's key.
\<close>

definition is_str :: "(json \<Rightarrow> pystr option) \<Rightarrow> json \<Rightarrow> bool" where
  "is_str str_of v \<longleftrightarrow> str_of v \<noteq> None"

definition is_email :: "(json \<Rightarrow> pystr option) \<Rightarrow> (pystr \<Rightarrow> pystr option) \<Rightarrow> json \<Rightarrow> bool" where
  "is_email str_of email_of v \<longleftrightarrow>
     (case str_of v of None \<Rightarrow> False | Some s \<Rightarrow> email_of s \<noteq> None)"

definition is_optional :: "(json \<Rightarrow> bool) \<Rightarrow> json \<Rightarrow> bool" where
  "is_optional p v \<longleftrightarrow> v = JNull \<or> p v"

definition is_list :: "(json \<Rightarrow> bool) \<Rightarrow> json \<Rightarrow> bool" where
  "is_list p v \<longleftrightarrow> (case v of JArr vs \<Rightarrow> list_all p vs | _ \<Rightarrow> False)"

type_synonym field_decl = "pystr \<times> bool \<times> (json \<Rightarrow> bool)"

definition offending :: "field_decl \<Rightarrow> (pystr \<times> json) list \<Rightarrow> bool" where
  "offending d obj =
     (case map_of obj (fst d) of None \<Rightarrow> fst (snd d) | Some v \<Rightarrow> \<not> snd (snd d) v)"

definition is_model :: "field_decl list \<Rightarrow> json \<Rightarrow> bool" where
  "is_model decl v \<longleftrightarrow>
     (case v of JObj obj \<Rightarrow> list_all (\<lambda>d. \<not> offending d obj) decl | _ \<Rightarrow> False)"

definition CVExperience_decl :: "(json \<Rightarrow> pystr option) \<Rightarrow> field_decl list" where
  "CVExperience_decl str_of =
     [(lit ''company'', True, is_str str_of),
      (lit ''role'', True, is_str str_of),
      (lit ''duration'', True, is_str str_of),
      (lit ''achievements'', False, is_list (is_str str_of))]"

definition CVEducation_decl :: "(json \<Rightarrow> pystr option) \<Rightarrow> field_decl list" where
  "CVEducation_decl str_of =
     [(lit ''degree'', True, is_str str_of),
      (lit ''institution'', True, is_str str_of),
      (lit ''year'', True, is_str str_of)]"

definition CVProfile_decl ::
  "(json \<Rightarrow> pystr option) \<Rightarrow> (pystr \<Rightarrow> pystr option) \<Rightarrow> field_decl list" where
  "CVProfile_decl str_of email_of =
     [(lit ''full_name'', True, is_str str_of),
      (lit ''email'', True, is_email str_of email_of),
      (lit ''phone'', True, is_str str_of),
      (lit ''linkedin'', False, is_optional (is_str str_of)),
      (lit ''summary'', False, is_optional (is_str str_of)),
      (lit ''job_title_target'', True, is_str str_of),
      (lit ''skills'', False, is_list (is_str str_of)),
      (lit ''experience'', False, is_list (is_model (CVExperience_decl str_of))),
      (lit ''education'', False, is_list (is_model (CVEducation_decl str_of))),
      (lit ''certifications'', False, is_optional (is_list (is_str str_of))),
      (lit ''projects'', False, is_optional (is_list (is_str str_of))),
      (lit ''languages'', False, is_optional (is_list (is_str str_of))),
      (lit ''interests'', False, is_optional (is_list (is_str str_of))),
      (lit ''template'', False, is_optional (is_str str_of))]"




section \<open>Occurrences of a heading in the markup\<close>









section \<open>Example inputs\<close>

text \<open>The profile of the specification's scenario.\<close>

definition jane :: CVProfile where
  "jane = \<lparr> full_name = lit ''Jane Doe'', email = lit ''jane@example.com'',
      phone = lit ''555-1234'', linkedin = None, summary = None,
      job_title_target = lit ''Backend Engineer'',
      skills = [lit ''Go'', lit '' Rust '', []], experience = [], education = [],
      certifications = Some [], projects = Some [], languages = Some [], interests = Some [],
      template = Some (lit ''modern'') \<rparr>"

text \<open>
  A profile with a whitespace-only skill, one with a tab in the name, and one whose list
  fields hold empty strings only.
\<close>

definition blank_skill :: CVProfile where
  "blank_skill = jane\<lparr>skills := [lit ''Go'', lit '' '']\<rparr>"

definition ada :: CVProfile where
  "ada = jane\<lparr>full_name := lit ''Ada'' @ [9] @ lit ''Lovelace''\<rparr>"

definition blank_lists :: CVProfile where
  "blank_lists = jane\<lparr>certifications := Some [[]], projects := Some [[], []],
     languages := Some [[]], interests := Some [[]],
     experience := [\<lparr> company = lit ''Acme'', role = lit ''Engineer'', duration = lit ''2020'',
                      achievements = [[]] \<rparr>]\<rparr>"

text \<open>A profile with a LinkedIn address, one experience and one education entry, and one certification.\<close>

definition full_profile :: CVProfile where
  "full_profile = jane\<lparr>linkedin := Some (lit ''linkedin.com/in/jane''),
     experience := [\<lparr> company = lit ''Acme'', role = lit ''Engineer'', duration = lit ''2020'',
                      achievements = [lit ''Shipped the billing API''] \<rparr>],
     education := [\<lparr> degree = lit ''BSc'', institution = lit ''MIT'', year = lit ''2019'' \<rparr>],
     certifications := Some [lit ''CKA''], languages := None\<rparr>"

text \<open>
  Two datastores, one that stores the record and one that is unavailable, and a converter
  that answers with four bytes.
\<close>

definition store_ok :: "pystr \<Rightarrow> CVProfile \<Rightarrow> unit \<Rightarrow> (pyexc + pystr) \<times> unit" where
  "store_ok collection_name profile db = (Inr (lit ''65f0c2a1''), db)"

definition store_down :: "pystr \<Rightarrow> CVProfile \<Rightarrow> unit \<Rightarrow> (pyexc + pystr) \<times> unit" where
  "store_down collection_name profile db = (Inl (Exception (lit ''Database not available'')), db)"

definition pisa_stub :: "pystr \<Rightarrow> pyexc + byte list" where
  "pisa_stub markup = Inr [37, 80, 68, 70]"

definition jane_response :: Response where
  "jane_response = \<lparr> id_resp = Some (lit ''65f0c2a1''), filename = make_filename jane,
      html = render_cv_html jane, pdf_base64 = lit ''JVBERg=='' \<rparr>"







section \<open>The specification's wording\<close>

text \<open>
  The skills section as the specification words it: every entry is trimmed, and the entries
  that are empty or whitespace-only are dropped.
\<close>

definition spec_keywords :: "pystr list \<Rightarrow> pystr list" where
  "spec_keywords sk = filter (\<lambda>s. s \<noteq> []) (map strip sk)"

text \<open>
  The file name as the specification words it: name and job title with all whitespace
  removed, directly followed by the suffix.
\<close>

definition spec_filename :: "CVProfile \<Rightarrow> pystr" where
  "spec_filename profile =
     filter (\<lambda>c. \<not> py_isspace c) (full_name profile @ job_title_target profile) @
     lit ''_MakeMeHiredCV.pdf''"

section \<open>Helper lemmas\<close>

lemma exp_loop_concat: "exp_loop acc es = acc @ concat (map exp_item es)"
  by (induction es arbitrary: acc) simp_all


lemma render_sections:
  "render_cv_html P =
     doc_head P @ header_section P @ lit ''\<newline>'' @
     summary_section P @ lit ''\<newline>'' @
     skills_section P @ lit ''\<newline>'' @
     experience_section P @ lit ''\<newline>'' @
     education_section P @ lit ''\<newline>'' @
     lit ''  '' @ certifications_section P @ lit ''\<newline>'' @
     lit ''  '' @ projects_section P @ lit ''\<newline>'' @
     lit ''  '' @ languages_section P @ lit ''\<newline>'' @
     lit ''  '' @ interests_section P @ lit ''\<newline>'' @
     doc_tail"
  by (simp add: render_cv_html_def doc_head_def header_section_def contact_line_def
      summary_section_def skills_section_def experience_section_def education_section_def
      certifications_section_def projects_section_def languages_section_def
      interests_section_def doc_tail_def)

lemma sublist_ctx: "ys = ps @ xs @ ss \<Longrightarrow> sublist xs ys"
  unfolding sublist_def by blast

lemma sublist_trans2: "sublist xs ys \<Longrightarrow> sublist ys zs \<Longrightarrow> sublist xs zs"
  by (rule sublist_order.order.trans)

lemma title_in_head:
  "sublist (lit ''<title>'' @ full_name P @ lit '' '' @ emdash @ lit '' '' @ job_title_target P @ lit '' CV</title>'') (doc_head P)"
  by (rule sublist_ctx[where ps = "lit ''\<newline><!DOCTYPE html>\<newline><html>\<newline><head>\<newline><meta charset='utf-8'>\<newline>''"
        and ss = "lit ''\<newline>'' @ style_block @ lit ''</head>\<newline><body>\<newline>''"])
     (simp add: doc_head_def lit_def)

lemma name_in_header:
  "sublist (lit ''<div class='name'>'' @ full_name P @ lit ''</div>'') (header_section P)"
  by (rule sublist_ctx[where ps = "lit ''  <div class='header'>\<newline>    ''"
        and ss = "lit ''\<newline>    <div class='contact'>\<newline>      '' @ contact_line P @ lit ''\<newline>    </div>\<newline>  </div>\<newline>''"])
     (simp add: header_section_def lit_def)

lemma contact_in_header:
  "sublist (phone P @ lit '' '' @ bullet @ lit '' '' @ email P) (header_section P)"
  by (rule sublist_ctx[where ps = "lit ''  <div class='header'>\<newline>    <div class='name'>'' @ full_name P @ lit ''</div>\<newline>    <div class='contact'>\<newline>      ''"
        and ss = "(if truthy (linkedin P) then lit '' '' @ bullet @ lit '' '' @ the (linkedin P) else []) @ lit ''\<newline>    </div>\<newline>  </div>\<newline>''"])
     (simp add: header_section_def contact_line_def lit_def)

lemma summary_heading:
  "sublist (lit ''<h2>Professional Summary</h2>'') (summary_section P)"
  by (rule sublist_ctx[where ps = "lit ''  <div class='section'>\<newline>    ''"
        and ss = "lit ''\<newline>    <p>'' @ summary_text P @ lit ''</p>\<newline>  </div>\<newline>''"])
     (simp add: summary_section_def lit_def)

lemma skills_heading:
  "sublist (lit ''<h2>Core Skills</h2>'') (skills_section P)"
  by (rule sublist_ctx[where ps = "lit ''  <div class='section'>\<newline>    ''"
        and ss = "lit ''\<newline>    <div>'' @ skills_html_of (skills P) @ lit ''</div>\<newline>  </div>\<newline>''"])
     (simp add: skills_section_def lit_def)

lemma experience_heading:
  "sublist (lit ''<h2>Professional Experience</h2>'') (experience_section P)"
  by (rule sublist_ctx[where ps = "lit ''  <div class='section'>\<newline>    ''"
        and ss = "lit ''\<newline>    '' @ exp_loop [] (experience P) @ lit ''\<newline>  </div>\<newline>''"])
     (simp add: experience_section_def lit_def)

lemma education_heading:
  "sublist (lit ''<h2>Education</h2>'') (education_section P)"
  by (rule sublist_ctx[where ps = "lit ''  <div class='section'>\<newline>    ''"
        and ss = "lit ''\<newline>    '' @ edu_loop [] (education P) @ lit ''\<newline>  </div>\<newline>''"])
     (simp add: education_section_def lit_def)

lemma summary_section_in_render: "sublist (summary_section P) (render_cv_html P)"
  by (rule sublist_ctx[where ps = "doc_head P @ header_section P @ lit ''\<newline>''"])
     (simp add: render_sections)

lemma skills_section_in_render: "sublist (skills_section P) (render_cv_html P)"
  by (rule sublist_ctx[where ps = "doc_head P @ header_section P @ lit ''\<newline>'' @
     summary_section P @ lit ''\<newline>''"])
     (simp add: render_sections)

lemma experience_section_in_render: "sublist (experience_section P) (render_cv_html P)"
  by (rule sublist_ctx[where ps = "doc_head P @ header_section P @ lit ''\<newline>'' @
     summary_section P @ lit ''\<newline>'' @
     skills_section P @ lit ''\<newline>''"])
     (simp add: render_sections)

lemma certifications_section_in_render: "sublist (certifications_section P) (render_cv_html P)"
  by (rule sublist_ctx[where ps = "doc_head P @ header_section P @ lit ''\<newline>'' @
     summary_section P @ lit ''\<newline>'' @
     skills_section P @ lit ''\<newline>'' @
     experience_section P @ lit ''\<newline>'' @
     education_section P @ lit ''\<newline>'' @
     lit ''  ''"])
     (simp add: render_sections)

lemma projects_section_in_render: "sublist (projects_section P) (render_cv_html P)"
  by (rule sublist_ctx[where ps = "doc_head P @ header_section P @ lit ''\<newline>'' @
     summary_section P @ lit ''\<newline>'' @
     skills_section P @ lit ''\<newline>'' @
     experience_section P @ lit ''\<newline>'' @
     education_section P @ lit ''\<newline>'' @
     lit ''  '' @ certifications_section P @ lit ''\<newline>'' @
     lit ''  ''"])
     (simp add: render_sections)

lemma languages_section_in_render: "sublist (languages_section P) (render_cv_html P)"
  by (rule sublist_ctx[where ps = "doc_head P @ header_section P @ lit ''\<newline>'' @
     summary_section P @ lit ''\<newline>'' @
     skills_section P @ lit ''\<newline>'' @
     experience_section P @ lit ''\<newline>'' @
     education_section P @ lit ''\<newline>'' @
     lit ''  '' @ certifications_section P @ lit ''\<newline>'' @
     lit ''  '' @ projects_section P @ lit ''\<newline>'' @
     lit ''  ''"])
     (simp add: render_sections)

lemma interests_section_in_render: "sublist (interests_section P) (render_cv_html P)"
  by (rule sublist_ctx[where ps = "doc_head P @ header_section P @ lit ''\<newline>'' @
     summary_section P @ lit ''\<newline>'' @
     skills_section P @ lit ''\<newline>'' @
     experience_section P @ lit ''\<newline>'' @
     education_section P @ lit ''\<newline>'' @
     lit ''  '' @ certifications_section P @ lit ''\<newline>'' @
     lit ''  '' @ projects_section P @ lit ''\<newline>'' @
     lit ''  '' @ languages_section P @ lit ''\<newline>'' @
     lit ''  ''"])
     (simp add: render_sections)

lemma summary_paragraph:
  "sublist (lit ''<h2>Professional Summary</h2>\<newline>    <p>'' @ summary_text P @ lit ''</p>'') (summary_section P)"
  by (rule sublist_ctx[where ps = "lit ''  <div class='section'>\<newline>    ''"
        and ss = "lit ''\<newline>  </div>\<newline>''"])
     (simp add: summary_section_def lit_def)

lemma fallback_summary_lit:
  "lit ''<h2>Professional Summary</h2>\<newline>    <p>'' @ fallback_summary j @ lit ''</p>'' =
   lit ''<h2>Professional Summary</h2>\<newline>    <p>Results-driven '' @ j @
   lit '' with experience across key areas and strong focus on measurable impact.</p>''"
  by (simp add: fallback_summary_def lit_def)

lemma skills_to_keywords_spec:
  "\<forall>s\<in>set sk. s \<noteq> [] \<longrightarrow> strip s \<noteq> [] \<Longrightarrow> skills_to_keywords sk = spec_keywords sk"
proof (induction sk)
  case Nil then show ?case by (simp add: skills_to_keywords_def spec_keywords_def)
next
  case (Cons a sk)
  have "strip [] = []" by (simp add: strip_def lstrip_def rstrip_def)
  with Cons show ?case by (auto simp add: skills_to_keywords_def spec_keywords_def)
qed

lemma replace_char_filter: "replace_char c [] s = filter (\<lambda>x. x \<noteq> c) s"
  by (induction s) (simp_all add: replace_char_def)

lemma generate_jane: "fst (generate_cv store_ok pisa_stub jane ()) = Inr jane_response"
  by (simp add: generate_cv_def store_ok_def pisa_stub_def html_to_pdf_bytes_def
      jane_response_def b64_char_def b64_alphabet_def lit_def)

lemma bullet_list_blank:
  assumes "xs \<noteq> []" and "\<forall>x\<in>set xs. x = []"
  shows "bullet_list (Some xs) = lit ''<ul></ul>''"
proof -
  from assms(2) have "filter (\<lambda>p. p \<noteq> []) xs = []"
    by (induction xs) auto
  with assms(1) show ?thesis by (simp add: bullet_list_def lit_def)
qed

lemma bullet_list_empty_iff: "bullet_list items = [] \<longleftrightarrow> items = None \<or> items = Some []"
  by (cases items) (auto simp add: bullet_list_def lit_def)

lemma exp_item_in_loop: "e \<in> set es \<Longrightarrow> sublist (exp_item e) (exp_loop [] es)"
proof -
  assume "e \<in> set es"
  then obtain ys zs where "es = ys @ e # zs" by (auto dest: split_list)
  then show ?thesis
    by (simp add: exp_loop_concat)
qed

lemma exp_loop_in_section: "sublist (exp_loop [] (experience P)) (experience_section P)"
  by (rule sublist_ctx[where ps = "lit ''  <div class='section'>\<newline>    <h2>Professional Experience</h2>\<newline>    ''"
        and ss = "lit ''\<newline>  </div>\<newline>''"])
     (simp add: experience_section_def lit_def)

lemma exp_item_in_render:
  "e \<in> set (experience P) \<Longrightarrow> sublist (exp_item e) (render_cv_html P)"
  by (blast intro: sublist_trans2 exp_item_in_loop exp_loop_in_section experience_section_in_render)

lemma exp_item_achievements:
  "sublist (duration e @ lit ''</span></div>\<newline>            '' @ bullet_list (Some (achievements e)) @
            lit ''\<newline>        </div>'') (exp_item e)"
  by (rule sublist_ctx[where ps = "lit ''\<newline>        <div class='exp-item'>\<newline>            <div class='exp-header'><strong>'' @ role e @ lit ''</strong> | '' @ company e @
       lit '' '' @ emdash @ lit '' <span class='muted'>''"
        and ss = "lit ''\<newline>        ''"])
     (simp add: exp_item_def lit_def)

lemma optional_section_blank:
  assumes "xs \<noteq> []" and "\<forall>x\<in>set xs. x = []"
  shows "optional_section title (bullet_list (Some xs)) =
           lit ''<div class='section'><h2>'' @ title @ lit ''</h2><ul></ul></div>''"
  using bullet_list_blank[OF assms] by (simp add: optional_section_def lit_def)


lemma optional_section_truthy:
  "optional_section title (bullet_list items) =
     (if truthy items
      then lit ''<div class='section'><h2>'' @ title @ lit ''</h2>'' @ bullet_list items @ lit ''</div>''
      else [])"
  by (cases items) (auto simp add: optional_section_def bullet_list_def lit_def)

lemma name_contact_in_header:
  "sublist (lit ''<div class='name'>'' @ full_name P @ lit ''</div>\<newline>    <div class='contact'>\<newline>      '' @
            phone P @ lit '' '' @ bullet @ lit '' '' @ email P) (header_section P)"
  by (rule sublist_ctx[where ps = "lit ''  <div class='header'>\<newline>    ''"
        and ss = "(if truthy (linkedin P) then lit '' '' @ bullet @ lit '' '' @ the (linkedin P) else []) @ lit ''\<newline>    </div>\<newline>  </div>\<newline>''"])
     (simp add: header_section_def contact_line_def lit_def)

lemma errs_of_simps [simp]: "errs_of (Inl es) = es" "errs_of (Inr x) = []"
  by (simp_all add: errs_of_def)

lemma errs_of_ap [simp]: "errs_of (ap f x) = errs_of f @ errs_of x"
  by (cases f; cases x) simp_all






























































lemma errs_at [simp]: "errs_of (at l r) = map (\<lambda>(loc, k). (l # loc, k)) (errs_of r)"
  by (cases r) (simp_all add: at_def)
















lemma key_distinct:
  "distinct (map fst (CVProfile_decl so eo))"
  by (simp add: CVProfile_decl_def lit_def)








lemma title_holds_job_title: "sublist (job_title_target P) (doc_head P)"
  by (rule sublist_ctx[where ps = "lit ''\<newline><!DOCTYPE html>\<newline><html>\<newline><head>\<newline><meta charset='utf-8'>\<newline><title>'' @ full_name P @ lit '' '' @ emdash @ lit '' ''"
        and ss = "lit '' CV</title>\<newline>'' @ style_block @ lit ''</head>\<newline><body>\<newline>''"])
     (simp add: doc_head_def lit_def)

lemma header_section_exact:
  "header_section P =
     lit ''  <div class='header'>\<newline>    <div class='name'>'' @ full_name P @
     lit ''</div>\<newline>    <div class='contact'>\<newline>      '' @
     phone P @ lit '' '' @ bullet @ lit '' '' @ email P @
     (if truthy (linkedin P) then lit '' '' @ bullet @ lit '' '' @ the (linkedin P) else []) @
     lit ''\<newline>    </div>\<newline>  </div>\<newline>''"
  by (simp add: header_section_def contact_line_def lit_def)

section \<open>Skills\<close>

text \<open>
  C1: a whitespace-only skill is not dropped. The filter of \<open>skills_to_keywords\<close> tests
  the entry before it is stripped, so the entry \<open>" "\<close> is kept and rendered as a tag with no
  text, where the specification's wording drops it.
\<close>

theorem blank_skill_rendered:
  "skills_html_of (skills blank_skill) =
     lit ''<span class='tag'>Go</span><span class='tag'></span>'' \<and>
   skills_html_of (skills blank_skill) \<noteq> concat (map skill_tag (spec_keywords (skills blank_skill)))"
  by (simp add: blank_skill_def jane_def skills_html_of_def skills_to_keywords_def skill_tag_def
      spec_keywords_def strip_def lstrip_def rstrip_def py_isspace_def lit_def)

section \<open>File name\<close>

text \<open>
  C2: as worded (name and job title with whitespace stripped, directly followed by the
  suffix) the statement fails: the code puts an underscore between name and job title and
  removes the space character U+0020 only, so a tab stays.
\<close>

theorem filename_counterexample:
  "map_sum id filename (fst (generate_cv store_ok pisa_stub ada ())) =
     Inr (lit ''Ada'' @ [9] @ lit ''Lovelace_BackendEngineer_MakeMeHiredCV.pdf'') \<and>
   map_sum id filename (fst (generate_cv store_ok pisa_stub ada ())) \<noteq> Inr (spec_filename ada)"
  by (simp add: generate_cv_def store_ok_def pisa_stub_def html_to_pdf_bytes_def make_filename_def
      replace_char_def ada_def jane_def spec_filename_def py_isspace_def lit_def)

text \<open>
  C2, as the code has it: whenever \<open>generate_cv\<close> returns a response, its file name is the full name
  without space characters, an underscore, the target job title without space characters,
  and the suffix \<open>_MakeMeHiredCV.pdf\<close>; no space character (U+0020) stands before the suffix.
\<close>

theorem filename_shape:
  "fst (generate_cv create_document pisa P db) = Inr r \<Longrightarrow>
     filename r = filter (\<lambda>c. c \<noteq> 32) (full_name P) @ lit ''_'' @
                  filter (\<lambda>c. c \<noteq> 32) (job_title_target P) @ lit ''_MakeMeHiredCV.pdf'' \<and>
     32 \<notin> set (filter (\<lambda>c. c \<noteq> 32) (full_name P) @ lit ''_'' @
                  filter (\<lambda>c. c \<noteq> 32) (job_title_target P))"
  by (auto simp add: generate_cv_def html_to_pdf_bytes_def make_filename_def replace_char_filter
      lit_def Let_def split: prod.splits sum.splits pyexc.splits)

theorem filename_shape_witness:
  "fst (generate_cv store_ok pisa_stub jane ()) = Inr jane_response \<and>
   filename jane_response = lit ''JaneDoe_BackendEngineer_MakeMeHiredCV.pdf''"
  using filename_shape[OF generate_jane] generate_jane
  by (simp add: jane_def lit_def)

section \<open>Persistence\<close>

text \<open>
  C3: when \<open>create_document\<close> raises an \<open>Exception\<close>, \<open>generate_cv\<close> gives the
  outcome it gives when the write succeeds, with the identifier \<open>None\<close>: the same file name,
  markup and encoded bytes, and no error from the datastore. It returns a response whenever
  the converter returns bytes.
\<close>

theorem persistence_failure_non_fatal:
  assumes ok: "create_ok (lit ''cvprofile'') P db = (Inr i, db1)"
      and down: "create_down (lit ''cvprofile'') P db = (Inl (Exception m), db2)"
  shows "fst (generate_cv create_down pisa P db) =
           map_sum id (\<lambda>r. r\<lparr>id_resp := None\<rparr>) (fst (generate_cv create_ok pisa P db)) \<and>
         (\<forall>r. fst (generate_cv create_ok pisa P db) = Inr r \<longrightarrow>
              id_resp r = Some i \<and>
              fst (generate_cv create_down pisa P db) =
                Inr \<lparr> id_resp = None, filename = filename r, html = html r,
                      pdf_base64 = pdf_base64 r \<rparr>) \<and>
         (\<forall>pdf_bytes. pisa (render_cv_html P) = Inr pdf_bytes \<longrightarrow>
              fst (generate_cv create_down pisa P db) =
                Inr \<lparr> id_resp = None, filename = make_filename P, html = render_cv_html P,
                      pdf_base64 = b64encode pdf_bytes \<rparr>)"
  using ok down
  by (auto simp add: generate_cv_def html_to_pdf_bytes_def Let_def split: sum.splits)

theorem persistence_failure_non_fatal_witness:
  "fst (generate_cv store_ok pisa_stub jane ()) = Inr jane_response \<and>
   fst (generate_cv store_down pisa_stub jane ()) = Inr (jane_response\<lparr>id_resp := None\<rparr>)"
proof -
  have ok: "store_ok (lit ''cvprofile'') jane () = (Inr (lit ''65f0c2a1''), ())"
    by (simp add: store_ok_def)
  have down: "store_down (lit ''cvprofile'') jane () =
      (Inl (Exception (lit ''Database not available'')), ())"
    by (simp add: store_down_def)
  show ?thesis
    using persistence_failure_non_fatal[where create_ok = store_ok and create_down = store_down
        and pisa = pisa_stub, OF ok down] generate_jane
    by simp
qed

section \<open>Summary\<close>

text \<open>
  C4: when the summary is absent or empty, the summary section of the markup holds the
  fallback sentence built from the target job title; when it is a non-empty string, the
  section holds that string.
\<close>

theorem summary_fallback:
  "((summary P = None \<or> summary P = Some []) \<longrightarrow>
      sublist (lit ''<h2>Professional Summary</h2>\<newline>    <p>Results-driven '' @ job_title_target P @
               lit '' with experience across key areas and strong focus on measurable impact.</p>'')
              (render_cv_html P)) \<and>
   (\<forall>s. summary P = Some s \<and> s \<noteq> [] \<longrightarrow>
      sublist (lit ''<h2>Professional Summary</h2>\<newline>    <p>'' @ s @ lit ''</p>'') (render_cv_html P))"
proof (intro conjI impI allI)
  assume "summary P = None \<or> summary P = Some []"
  then have "summary_text P = fallback_summary (job_title_target P)"
    by (auto simp add: summary_text_def)
  then show "sublist (lit ''<h2>Professional Summary</h2>\<newline>    <p>Results-driven '' @ job_title_target P @
               lit '' with experience across key areas and strong focus on measurable impact.</p>'')
              (render_cv_html P)"
    using sublist_trans2[OF summary_paragraph summary_section_in_render, of P]
    by (simp only: fallback_summary_lit)
next
  fix s assume "summary P = Some s \<and> s \<noteq> []"
  then have "summary_text P = s"
    by (simp add: summary_text_def)
  then show "sublist (lit ''<h2>Professional Summary</h2>\<newline>    <p>'' @ s @ lit ''</p>'') (render_cv_html P)"
    using sublist_trans2[OF summary_paragraph summary_section_in_render, of P] by simp
qed

theorem summary_fallback_witness:
  "sublist (lit ''<h2>Professional Summary</h2>\<newline>    <p>Results-driven '' @ lit ''Backend Engineer'' @
               lit '' with experience across key areas and strong focus on measurable impact.</p>'')
              (render_cv_html jane) \<and>
   sublist (lit ''<h2>Professional Summary</h2>\<newline>    <p>'' @ lit ''Builds APIs.'' @ lit ''</p>'')
              (render_cv_html (jane\<lparr>summary := Some (lit ''Builds APIs.'')\<rparr>))"
  using summary_fallback[of jane] summary_fallback[of "jane\<lparr>summary := Some (lit ''Builds APIs.'')\<rparr>"]
  by (simp add: jane_def lit_def)

section \<open>Optional sections and the order of sections\<close>




text \<open>
  C6: as worded (the header holds name, target job title and contact line) the statement
  fails: the header block holds the name and the contact line only, and the target job
  title stands in the title element of the document head.
\<close>

theorem header_without_job_title_counterexample:
  "\<not> sublist (job_title_target jane) (header_section jane) \<and>
   sublist (job_title_target jane) (doc_head jane)"
proof -
  have "\<not> sublist (job_title_target jane) (header_section jane)"
    by (simp add: header_section_def contact_line_def jane_def bullet_def lit_def
        sublist_Cons_right)
  then show ?thesis using title_holds_job_title[of jane] by blast
qed

text \<open>
  C6, as the code has it: the markup is, in this order, the document head (whose title holds
  the name and the target job title), the header block (the name, then the contact line with
  phone and email, and the LinkedIn address when there is one), the summary, skills,
  experience and education sections, each with its heading, and then the certifications,
  projects, languages and interests sections, each present exactly when its collection is
  non-empty. The head, the header block and the four sections with a heading are always
  there.
\<close>

theorem sections_in_fixed_order:
  "render_cv_html P =
     doc_head P @ header_section P @ lit ''\<newline>'' @
     summary_section P @ lit ''\<newline>'' @
     skills_section P @ lit ''\<newline>'' @
     experience_section P @ lit ''\<newline>'' @
     education_section P @ lit ''\<newline>'' @
     lit ''  '' @ certifications_section P @ lit ''\<newline>'' @
     lit ''  '' @ projects_section P @ lit ''\<newline>'' @
     lit ''  '' @ languages_section P @ lit ''\<newline>'' @
     lit ''  '' @ interests_section P @ lit ''\<newline>'' @
     doc_tail \<and>
   sublist (lit ''<title>'' @ full_name P @ lit '' '' @ emdash @ lit '' '' @ job_title_target P @
            lit '' CV</title>'') (doc_head P) \<and>
   sublist (lit ''<div class='name'>'' @ full_name P @ lit ''</div>\<newline>    <div class='contact'>\<newline>      '' @
            phone P @ lit '' '' @ bullet @ lit '' '' @ email P) (header_section P) \<and>
   sublist (lit ''<h2>Professional Summary</h2>'') (summary_section P) \<and>
   sublist (lit ''<h2>Core Skills</h2>'') (skills_section P) \<and>
   sublist (lit ''<h2>Professional Experience</h2>'') (experience_section P) \<and>
   sublist (lit ''<h2>Education</h2>'') (education_section P) \<and>
   certifications_section P =
     (if truthy (certifications P)
      then lit ''<div class='section'><h2>Certifications</h2>'' @ bullet_list (certifications P) @ lit ''</div>''
      else []) \<and>
   projects_section P =
     (if truthy (projects P)
      then lit ''<div class='section'><h2>Projects / Achievements</h2>'' @ bullet_list (projects P) @ lit ''</div>''
      else []) \<and>
   languages_section P =
     (if truthy (languages P)
      then lit ''<div class='section'><h2>Languages</h2>'' @ bullet_list (languages P) @ lit ''</div>''
      else []) \<and>
   interests_section P =
     (if truthy (interests P)
      then lit ''<div class='section'><h2>Interests</h2>'' @ bullet_list (interests P) @ lit ''</div>''
      else []) \<and>
   header_section P =
     lit ''  <div class='header'>\<newline>    <div class='name'>'' @ full_name P @
     lit ''</div>\<newline>    <div class='contact'>\<newline>      '' @
     phone P @ lit '' '' @ bullet @ lit '' '' @ email P @
     (if truthy (linkedin P) then lit '' '' @ bullet @ lit '' '' @ the (linkedin P) else []) @
     lit ''\<newline>    </div>\<newline>  </div>\<newline>''"
proof (intro conjI)
  show "certifications_section P =
     (if truthy (certifications P)
      then lit ''<div class='section'><h2>Certifications</h2>'' @ bullet_list (certifications P) @ lit ''</div>''
      else [])"
    by (simp add: certifications_section_def optional_section_truthy lit_def)
  show "projects_section P =
     (if truthy (projects P)
      then lit ''<div class='section'><h2>Projects / Achievements</h2>'' @ bullet_list (projects P) @ lit ''</div>''
      else [])"
    by (simp add: projects_section_def optional_section_truthy lit_def)
  show "languages_section P =
     (if truthy (languages P)
      then lit ''<div class='section'><h2>Languages</h2>'' @ bullet_list (languages P) @ lit ''</div>''
      else [])"
    by (simp add: languages_section_def optional_section_truthy lit_def)
  show "interests_section P =
     (if truthy (interests P)
      then lit ''<div class='section'><h2>Interests</h2>'' @ bullet_list (interests P) @ lit ''</div>''
      else [])"
    by (simp add: interests_section_def optional_section_truthy lit_def)
qed (rule render_sections title_in_head name_contact_in_header summary_heading skills_heading
      experience_heading education_heading header_section_exact)+

theorem sections_in_fixed_order_witness:
  "certifications_section full_profile =
     lit ''<div class='section'><h2>Certifications</h2><ul><li>CKA</li></ul></div>'' \<and>
   projects_section full_profile = [] \<and> languages_section full_profile = [] \<and>
   interests_section full_profile = [] \<and>
   render_cv_html full_profile =
     doc_head full_profile @ header_section full_profile @ lit ''\<newline>'' @
     summary_section full_profile @ lit ''\<newline>'' @
     skills_section full_profile @ lit ''\<newline>'' @
     experience_section full_profile @ lit ''\<newline>'' @
     education_section full_profile @ lit ''\<newline>'' @
     lit ''  <div class='section'><h2>Certifications</h2><ul><li>CKA</li></ul></div>\<newline>'' @
     lit ''  \<newline>  \<newline>  \<newline>'' @ doc_tail"
proof -
  have t: "truthy (certifications full_profile)" "\<not> truthy (projects full_profile)"
    "\<not> truthy (languages full_profile)" "\<not> truthy (interests full_profile)"
    by (simp_all add: full_profile_def jane_def)
  have b: "bullet_list (certifications full_profile) = lit ''<ul><li>CKA</li></ul>''"
    by (simp add: full_profile_def jane_def bullet_list_def lit_def)
  show ?thesis
    using sections_in_fixed_order[of full_profile] t b
    by (simp add: lit_def)
qed

section \<open>Validation is all-or-nothing\<close>



section \<open>The template field\<close>

text \<open>
  C9: the \<open>template\<close> field has no effect: two profiles that agree on every other field
  give the same markup.
\<close>

theorem template_no_effect:
  "P1\<lparr>template := t\<rparr> = P2\<lparr>template := t\<rparr> \<Longrightarrow> render_cv_html P1 = render_cv_html P2"
proof -
  assume eq: "P1\<lparr>template := t\<rparr> = P2\<lparr>template := t\<rparr>"
  have "render_cv_html P = render_cv_html (P\<lparr>template := t\<rparr>)" for P
    by (simp add: render_cv_html_def summary_text_def)
  then have "render_cv_html P1 = render_cv_html (P1\<lparr>template := t\<rparr>)"
    and "render_cv_html P2 = render_cv_html (P2\<lparr>template := t\<rparr>)" by blast+
  with eq show ?thesis by simp
qed

theorem template_no_effect_witness:
  "render_cv_html (jane\<lparr>template := Some (lit ''classic'')\<rparr>) = render_cv_html jane"
proof -
  have "jane\<lparr>template := Some (lit ''classic''), template := None\<rparr> = jane\<lparr>template := None\<rparr>"
    by simp
  then show ?thesis by (rule template_no_effect)
qed

section \<open>Lists of empty strings\<close>

text \<open>
  C10: \<open>bullet_list\<close> is empty exactly when the sequence is absent or empty. A non-empty
  sequence of empty strings gives \<open><ul></ul>\<close>, so the section is emitted with its heading
  and an empty list, and an experience entry gets an empty list.
\<close>

theorem blank_items_keep_section:
  "(bullet_list items = [] \<longleftrightarrow> items = None \<or> items = Some []) \<and>
   (\<forall>xs. xs \<noteq> [] \<and> (\<forall>x\<in>set xs. x = []) \<longrightarrow>
      bullet_list (Some xs) = lit ''<ul></ul>'' \<and>
      (certifications P = Some xs \<longrightarrow>
         sublist (lit ''<div class='section'><h2>Certifications</h2><ul></ul></div>'') (render_cv_html P)) \<and>
      (projects P = Some xs \<longrightarrow>
         sublist (lit ''<div class='section'><h2>Projects / Achievements</h2><ul></ul></div>'') (render_cv_html P)) \<and>
      (languages P = Some xs \<longrightarrow>
         sublist (lit ''<div class='section'><h2>Languages</h2><ul></ul></div>'') (render_cv_html P)) \<and>
      (interests P = Some xs \<longrightarrow>
         sublist (lit ''<div class='section'><h2>Interests</h2><ul></ul></div>'') (render_cv_html P)) \<and>
      (\<forall>e\<in>set (experience P). achievements e = xs \<longrightarrow>
         sublist (duration e @ lit ''</span></div>\<newline>            <ul></ul>\<newline>        </div>'')
                 (render_cv_html P)))"
proof (intro conjI allI impI ballI)
  show "bullet_list items = [] \<longleftrightarrow> items = None \<or> items = Some []"
    by (rule bullet_list_empty_iff)
next
  fix xs :: "pystr list" assume a: "xs \<noteq> [] \<and> (\<forall>x\<in>set xs. x = [])"
  then show "bullet_list (Some xs) = lit ''<ul></ul>''"
    by (simp add: bullet_list_blank)
next
  fix xs assume a: "xs \<noteq> [] \<and> (\<forall>x\<in>set xs. x = [])" and c: "certifications P = Some xs"
  have "certifications_section P = lit ''<div class='section'><h2>Certifications</h2><ul></ul></div>''"
    using a c optional_section_blank[of xs "lit ''Certifications''"]
    by (simp add: certifications_section_def lit_def)
  then show "sublist (lit ''<div class='section'><h2>Certifications</h2><ul></ul></div>'') (render_cv_html P)"
    using certifications_section_in_render[of P] by simp
next
  fix xs assume a: "xs \<noteq> [] \<and> (\<forall>x\<in>set xs. x = [])" and c: "projects P = Some xs"
  have "projects_section P = lit ''<div class='section'><h2>Projects / Achievements</h2><ul></ul></div>''"
    using a c optional_section_blank[of xs "lit ''Projects / Achievements''"]
    by (simp add: projects_section_def lit_def)
  then show "sublist (lit ''<div class='section'><h2>Projects / Achievements</h2><ul></ul></div>'') (render_cv_html P)"
    using projects_section_in_render[of P] by simp
next
  fix xs assume a: "xs \<noteq> [] \<and> (\<forall>x\<in>set xs. x = [])" and c: "languages P = Some xs"
  have "languages_section P = lit ''<div class='section'><h2>Languages</h2><ul></ul></div>''"
    using a c optional_section_blank[of xs "lit ''Languages''"]
    by (simp add: languages_section_def lit_def)
  then show "sublist (lit ''<div class='section'><h2>Languages</h2><ul></ul></div>'') (render_cv_html P)"
    using languages_section_in_render[of P] by simp
next
  fix xs assume a: "xs \<noteq> [] \<and> (\<forall>x\<in>set xs. x = [])" and c: "interests P = Some xs"
  have "interests_section P = lit ''<div class='section'><h2>Interests</h2><ul></ul></div>''"
    using a c optional_section_blank[of xs "lit ''Interests''"]
    by (simp add: interests_section_def lit_def)
  then show "sublist (lit ''<div class='section'><h2>Interests</h2><ul></ul></div>'') (render_cv_html P)"
    using interests_section_in_render[of P] by simp
next
  fix xs e assume a: "xs \<noteq> [] \<and> (\<forall>x\<in>set xs. x = [])" and e: "e \<in> set (experience P)"
    and c: "achievements e = xs"
  have "bullet_list (Some (achievements e)) = lit ''<ul></ul>''"
    using a c by (simp add: bullet_list_blank)
  then have "sublist (duration e @ lit ''</span></div>\<newline>            <ul></ul>\<newline>        </div>'') (exp_item e)"
    using exp_item_achievements[of e] by (simp add: lit_def)
  then show "sublist (duration e @ lit ''</span></div>\<newline>            <ul></ul>\<newline>        </div>'')
                 (render_cv_html P)"
    using exp_item_in_render[OF e] by (rule sublist_trans2)
qed

theorem blank_items_keep_section_witness:
  "bullet_list (Some [[]]) = lit ''<ul></ul>'' \<and>
   sublist (lit ''<div class='section'><h2>Certifications</h2><ul></ul></div>'') (render_cv_html blank_lists) \<and>
   sublist (lit ''<div class='section'><h2>Languages</h2><ul></ul></div>'') (render_cv_html blank_lists) \<and>
   sublist (lit ''<div class='section'><h2>Interests</h2><ul></ul></div>'') (render_cv_html blank_lists) \<and>
   sublist (lit ''2020'' @ lit ''</span></div>\<newline>            <ul></ul>\<newline>        </div>'')
           (render_cv_html blank_lists)"
  using blank_items_keep_section[of "Some [[]]" blank_lists]
  by (simp add: blank_lists_def jane_def)

end
